theory Spec2Isabelle
  imports Complex_Main
begin

section \<open>Calendar arithmetic of the Date object\<close>

text \<open>
  The routes build their date bounds with \<^verbatim>\<open>new Date(year, month, day, h, m, s)\<close> and read
  \<^verbatim>\<open>getFullYear\<close>, \<^verbatim>\<open>getMonth\<close>, \<^verbatim>\<open>getDate\<close>, \<^verbatim>\<open>getDay\<close>. A time value is a number of
  milliseconds; the functions below are the day and month arithmetic of the ECMAScript
  language specification. Time values are kept in the server's local time, whose offset
  is taken as constant, so that comparing two time values compares the two instants.
\<close>

type_synonym time = int

definition msPerDay :: int where
  "msPerDay = 86400000"

definition Day :: "time \<Rightarrow> int" where
  "Day t = t div msPerDay"

definition TimeWithinDay :: "time \<Rightarrow> int" where
  "TimeWithinDay t = t mod msPerDay"

definition DaysInYear :: "int \<Rightarrow> int" where
  "DaysInYear y =
     (if y mod 4 \<noteq> 0 then 365
      else if y mod 100 \<noteq> 0 then 366
      else if y mod 400 \<noteq> 0 then 365
      else 366)"

definition DayFromYear :: "int \<Rightarrow> int" where
  "DayFromYear y =
     365 * (y - 1970) + (y - 1969) div 4 - (y - 1901) div 100 + (y - 1601) div 400"

text \<open>
  \<^verbatim>\<open>YearFromTime(t)\<close> is the largest year whose first day is not after the day of \<open>t\<close>.
  The search starts at a year that is not after it (every year has between 365 and 366
  days) and walks up.
\<close>

fun year_search :: "nat \<Rightarrow> int \<Rightarrow> int \<Rightarrow> int" where
  "year_search 0 y d = y"
| "year_search (Suc n) y d =
     (if DayFromYear (y + 1) \<le> d then year_search n (y + 1) d else y)"

definition YearFromDay :: "int \<Rightarrow> int" where
  "YearFromDay d =
     year_search (nat (\<bar>d\<bar> div 365 - \<bar>d\<bar> div 366 + 2))
       (1970 + (if 0 \<le> d then d div 366 else d div 365)) d"

definition YearFromTime :: "time \<Rightarrow> int" where
  "YearFromTime t = YearFromDay (Day t)"

definition InLeapYear :: "time \<Rightarrow> int" where
  "InLeapYear t = (if DaysInYear (YearFromTime t) = 366 then 1 else 0)"

definition DayWithinYear :: "time \<Rightarrow> int" where
  "DayWithinYear t = Day t - DayFromYear (YearFromTime t)"

definition MonthFromTime :: "time \<Rightarrow> int" where
  "MonthFromTime t =
     (let d = DayWithinYear t; l = InLeapYear t in
      if d < 31 then 0
      else if d < 59 + l then 1
      else if d < 90 + l then 2
      else if d < 120 + l then 3
      else if d < 151 + l then 4
      else if d < 181 + l then 5
      else if d < 212 + l then 6
      else if d < 243 + l then 7
      else if d < 273 + l then 8
      else if d < 304 + l then 9
      else if d < 334 + l then 10
      else 11)"

definition month_start :: "int \<Rightarrow> int \<Rightarrow> int" where
  "month_start mn l =
     (if mn = 0 then 0
      else if mn = 1 then 31
      else if mn = 2 then 59 + l
      else if mn = 3 then 90 + l
      else if mn = 4 then 120 + l
      else if mn = 5 then 151 + l
      else if mn = 6 then 181 + l
      else if mn = 7 then 212 + l
      else if mn = 8 then 243 + l
      else if mn = 9 then 273 + l
      else if mn = 10 then 304 + l
      else 334 + l)"

definition DateFromTime :: "time \<Rightarrow> int" where
  "DateFromTime t =
     DayWithinYear t - month_start (MonthFromTime t) (InLeapYear t) + 1"

definition WeekDay :: "time \<Rightarrow> int" where
  "WeekDay t = (Day t + 4) mod 7"

definition MakeTime :: "int \<Rightarrow> int \<Rightarrow> int \<Rightarrow> int \<Rightarrow> int" where
  "MakeTime h m s ms = h * 3600000 + m * 60000 + s * 1000 + ms"

text \<open>
  \<^verbatim>\<open>MakeDay\<close> carries a month index outside 0..11 into the year, and counts the day of
  the month from the first of that month, so that day 0 is the last day of the month
  before.
\<close>

definition MakeDay :: "int \<Rightarrow> int \<Rightarrow> int \<Rightarrow> int" where
  "MakeDay year month dt =
     (let ym = year + month div 12;
          mn = month mod 12
      in DayFromYear ym + month_start mn (if DaysInYear ym = 366 then 1 else 0) + dt - 1)"

definition MakeDate :: "int \<Rightarrow> int \<Rightarrow> time" where
  "MakeDate day tm = day * msPerDay + tm"

text \<open>\<^verbatim>\<open>new Date(year, month, date, hours, minutes, seconds, ms)\<close>; a year in 0..99 is
  read as 1900 + year.\<close>

definition new_Date :: "int \<Rightarrow> int \<Rightarrow> int \<Rightarrow> int \<Rightarrow> int \<Rightarrow> int \<Rightarrow> int \<Rightarrow> time" where
  "new_Date year month dt h m s ms =
     (let yr = (if 0 \<le> year \<and> year \<le> 99 then 1900 + year else year)
      in MakeDate (MakeDay yr month dt) (MakeTime h m s ms))"

text \<open>\<^verbatim>\<open>d.setDate(dt)\<close> keeps the year, the month and the time of day of \<open>d\<close>.\<close>

definition setDate :: "time \<Rightarrow> int \<Rightarrow> time" where
  "setDate t dt =
     MakeDate (MakeDay (YearFromTime t) (MonthFromTime t) dt) (TimeWithinDay t)"

section \<open>Data model\<close>

datatype rtype = Income | Expense

datatype bperiod = Weekly | Monthly | Yearly


text \<open>Both models are documents with an id, an owning user and a category label.\<close>

record doc =
  oid :: nat
  user :: nat
  category :: string

record frecord = doc +
  description :: string
  amount :: rat
  rtype :: rtype
  date :: time
  createdAt :: time

record budget = doc +
  budgetAmount :: rat
  spentAmount :: rat
  period :: bperiod
  startDate :: time
  endDate :: time
  isActive :: bool
  alertThreshold :: rat
  color :: string

record db =
  records :: "frecord list"
  budgets :: "budget list"

datatype http_error = HttpError nat string

section \<open>Aggregation pipeline stages\<close>

record 'k agg_group =
  gid :: 'k
  total :: rat
  count :: nat

text \<open>\<^verbatim>\<open>$group\<close> with \<^verbatim>\<open>total: {$sum: '$amount'}\<close> and \<^verbatim>\<open>count: {$sum: 1}\<close>: one group per
  key, in the order the keys first appear.\<close>

fun group_add :: "'k \<Rightarrow> rat \<Rightarrow> 'k agg_group list \<Rightarrow> 'k agg_group list" where
  "group_add k a [] = [\<lparr>gid = k, total = a, count = 1\<rparr>]"
| "group_add k a (g # gs) =
     (if gid g = k then g\<lparr>total := total g + a, count := count g + 1\<rparr> # gs
      else g # group_add k a gs)"

definition group_stage :: "(frecord \<Rightarrow> 'k) \<Rightarrow> frecord list \<Rightarrow> 'k agg_group list" where
  "group_stage key xs = foldl (\<lambda>gs r. group_add (key r) (amount r) gs) [] xs"


text \<open>\<^verbatim>\<open>result.find(r => r._id === k)?.total || 0\<close>\<close>

definition total_of :: "'k \<Rightarrow> 'k agg_group list \<Rightarrow> rat" where
  "total_of k result = (case find (\<lambda>g. gid g = k) result of Some g \<Rightarrow> total g | None \<Rightarrow> 0)"

section \<open>FinancialRecord statics\<close>

record summary =
  income :: rat
  expense :: rat
  balance :: rat

definition getUserBalance :: "frecord list \<Rightarrow> nat \<Rightarrow> summary" where
  "getUserBalance recs userId =
     (let result = group_stage rtype (filter (\<lambda>r. user r = userId) recs);
          inc = total_of Income result;
          spent = total_of Expense result
      in \<lparr>income = inc, expense = spent, balance = inc - spent\<rparr>)"

definition getMonthlySummary :: "frecord list \<Rightarrow> nat \<Rightarrow> int \<Rightarrow> int \<Rightarrow> summary" where
  "getMonthlySummary recs userId year month =
     (let startDate = new_Date year (month - 1) 1 0 0 0 0;
          endDate = new_Date year month 0 23 59 59 0;
          result = group_stage rtype
            (filter (\<lambda>r. user r = userId \<and> startDate \<le> date r \<and> date r \<le> endDate) recs);
          inc = total_of Income result;
          spent = total_of Expense result
      in \<lparr>income = inc, expense = spent, balance = inc - spent\<rparr>)"

section \<open>Budget virtuals and reconciliation\<close>




text \<open>\<^verbatim>\<open>doc.save()\<close> of a document that was read from the collection: the stored document
  with the same id is replaced.\<close>

definition save_budget :: "budget \<Rightarrow> budget list \<Rightarrow> budget list" where
  "save_budget b bs = map (\<lambda>x. if oid x = oid b then b else x) bs"

definition spent_match :: "budget \<Rightarrow> frecord \<Rightarrow> bool" where
  "spent_match b r \<longleftrightarrow>
     user r = user b \<and> rtype r = Expense \<and> category r = category b \<and>
     startDate b \<le> date r \<and> date r \<le> endDate b"

text \<open>\<^verbatim>\<open>Budget.findOne({ user, category, isActive: true })\<close>, and the same query with
  \<^verbatim>\<open>startDate: { $lte: date }, endDate: { $gte: date }\<close>: the first stored budget that
  matches.\<close>

definition find_active_budget :: "budget list \<Rightarrow> nat \<Rightarrow> string \<Rightarrow> budget option" where
  "find_active_budget bs uid c = find (\<lambda>b. user b = uid \<and> category b = c \<and> isActive b) bs"

definition find_active_budget_at :: "budget list \<Rightarrow> nat \<Rightarrow> string \<Rightarrow> time \<Rightarrow> budget option" where
  "find_active_budget_at bs uid c t =
     find (\<lambda>b. user b = uid \<and> category b = c \<and> isActive b \<and> startDate b \<le> t \<and> endDate b \<ge> t) bs"

definition updateSpentAmount :: "db \<Rightarrow> budget \<Rightarrow> budget \<times> db" where
  "updateSpentAmount d b =
     (let result = group_stage (\<lambda>r. ()) (filter (spent_match b) (records d));
          b' = b\<lparr>spentAmount := (if length result > 0 then total (hd result) else 0)\<rparr>
      in (b', d\<lparr>budgets := save_budget b' (budgets d)\<rparr>))"

section \<open>Record routes\<close>

subsection \<open>GET /api/records\<close>















subsection \<open>GET /api/records/monthly-summary and /category-breakdown\<close>

definition monthly_summary_route ::
  "frecord list \<Rightarrow> nat \<Rightarrow> int option \<Rightarrow> int option \<Rightarrow> http_error + summary" where
  "monthly_summary_route recs uid year month =
     (case (year, month) of
        (Some y, Some m) \<Rightarrow>
          (let startDate = new_Date y (m - 1) 1 0 0 0 0;
               endDate = new_Date y m 0 23 59 59 0;
               summ = group_stage rtype
                 (filter (\<lambda>r. user r = uid \<and> startDate \<le> date r \<and> date r \<le> endDate) recs);
               inc = total_of Income summ;
               spent = total_of Expense summ
           in Inr \<lparr>income = inc, expense = spent, balance = inc - spent\<rparr>)
      | _ \<Rightarrow> Inl (HttpError 400 ''Year and month are required''))"


subsection \<open>PUT /api/records/:id\<close>

record record_body =
  new_description :: string
  new_amount :: rat
  new_type :: rtype
  new_category :: string
  new_date :: "time option"

definition save_record :: "frecord \<Rightarrow> frecord list \<Rightarrow> frecord list" where
  "save_record r rs = map (\<lambda>x. if oid x = oid r then r else x) rs"

definition reconcile_found :: "db \<Rightarrow> budget option \<Rightarrow> db" where
  "reconcile_found d found = (case found of None \<Rightarrow> d | Some b \<Rightarrow> snd (updateSpentAmount d b))"

text \<open>\<^verbatim>\<open>Object.assign(record, req.body)\<close> with a validated body: the date is optional.\<close>

definition assign_body :: "frecord \<Rightarrow> record_body \<Rightarrow> frecord" where
  "assign_body record body =
     record\<lparr>category := new_category body,
            description := new_description body,
            amount := new_amount body,
            rtype := new_type body,
            date := (case new_date body of None \<Rightarrow> date record | Some t \<Rightarrow> t)\<rparr>"

definition updateRecord :: "db \<Rightarrow> nat \<Rightarrow> nat \<Rightarrow> record_body \<Rightarrow> (http_error + frecord) \<times> db" where
  "updateRecord d uid rid body =
     (case find (\<lambda>r. oid r = rid \<and> user r = uid) (records d) of
        None \<Rightarrow> (Inl (HttpError 404 ''Record not found''), d)
      | Some record \<Rightarrow>
          (let oldCategory = category record;
               oldType = rtype record;
               record' = assign_body record body;
               d1 = d\<lparr>records := save_record record' (records d)\<rparr>;
               d3 = (if oldType = Expense \<or> rtype record' = Expense then
                       (let d2 = (if oldCategory \<noteq> category record' then
                                    reconcile_found d1 (find_active_budget (budgets d1) uid oldCategory)
                                  else d1)
                        in reconcile_found d2
                             (find_active_budget_at (budgets d2) uid (category record') (date record')))
                     else d1)
           in (Inr record', d3)))"

section \<open>Budget routes\<close>

text \<open>The switch on the period that computes the window from "now"; the create and the
  update route each carry a copy of it.\<close>

definition period_window :: "time \<Rightarrow> bperiod \<Rightarrow> time \<times> time" where
  "period_window now p =
     (case p of
        Weekly \<Rightarrow>
          (let startDate = setDate now (DateFromTime now - WeekDay now);
               endDate = setDate startDate (DateFromTime startDate + 6)
           in (startDate, endDate))
      | Monthly \<Rightarrow>
          (new_Date (YearFromTime now) (MonthFromTime now) 1 0 0 0 0,
           new_Date (YearFromTime now) (MonthFromTime now + 1) 0 0 0 0 0)
      | Yearly \<Rightarrow>
          (new_Date (YearFromTime now) 0 1 0 0 0 0,
           new_Date (YearFromTime now) 11 31 0 0 0 0))"

record budget_body =
  body_category :: string
  body_budgetAmount :: rat
  body_period :: bperiod
  body_alertThreshold :: "rat option"
  body_color :: "string option"

definition fresh_oid :: "budget list \<Rightarrow> nat" where
  "fresh_oid bs = Suc (foldr max (map oid bs) 0)"

definition createBudget :: "db \<Rightarrow> nat \<Rightarrow> time \<Rightarrow> budget_body \<Rightarrow> (http_error + budget) \<times> db" where
  "createBudget d uid now body =
     (case find_active_budget (budgets d) uid (body_category body) of
        Some existingBudget \<Rightarrow>
          (Inl (HttpError 400 ''Active budget already exists for this category''), d)
      | None \<Rightarrow>
          (let w = period_window now (body_period body);
               b = \<lparr>oid = fresh_oid (budgets d), user = uid, category = body_category body,
                    budgetAmount = body_budgetAmount body,
                    spentAmount = 0,
                    period = body_period body,
                    startDate = fst w,
                    endDate = snd w,
                    isActive = True,
                    alertThreshold = (case body_alertThreshold body of
                        None \<Rightarrow> 80 | Some a \<Rightarrow> if a = 0 then 80 else a),
                    color = (case body_color body of
                        None \<Rightarrow> ''#3B82F6'' | Some c \<Rightarrow> if c = [] then ''#3B82F6'' else c)\<rparr>;
               r = updateSpentAmount (d\<lparr>budgets := budgets d @ [b]\<rparr>) b
           in (Inr (fst r), snd r)))"

text \<open>The update route tests each field of the body against \<^verbatim>\<open>undefined\<close>.\<close>

record budget_update =
  upd_budgetAmount :: "rat option"
  upd_period :: "bperiod option"
  upd_alertThreshold :: "rat option"
  upd_category :: "string option"

definition updateBudget :: "db \<Rightarrow> nat \<Rightarrow> nat \<Rightarrow> time \<Rightarrow> budget_update \<Rightarrow> (http_error + budget) \<times> db" where
  "updateBudget d uid bid now body =
     (case find (\<lambda>b. oid b = bid \<and> user b = uid) (budgets d) of
        None \<Rightarrow> (Inl (HttpError 404 ''Budget not found''), d)
      | Some budget \<Rightarrow>
          (let b1 = (case upd_budgetAmount body of None \<Rightarrow> budget | Some a \<Rightarrow> budget\<lparr>budgetAmount := a\<rparr>);
               b2 = (case upd_period body of None \<Rightarrow> b1 | Some p \<Rightarrow> b1\<lparr>period := p\<rparr>);
               b3 = (case upd_alertThreshold body of None \<Rightarrow> b2 | Some a \<Rightarrow> b2\<lparr>alertThreshold := a\<rparr>);
               b4 = (case upd_category body of None \<Rightarrow> b3 | Some c \<Rightarrow> b3\<lparr>category := c\<rparr>);
               b5 = (case upd_period body of
                        None \<Rightarrow> b4
                      | Some p \<Rightarrow>
                          if p \<noteq> period b4
                          then b4\<lparr>startDate := fst (period_window now p),
                                  endDate := snd (period_window now p)\<rparr>
                          else b4);
               r = updateSpentAmount (d\<lparr>budgets := save_budget b5 (budgets d)\<rparr>) b5
           in (Inr (fst r), snd r)))"

definition toggleBudgetActive :: "db \<Rightarrow> nat \<Rightarrow> nat \<Rightarrow> (http_error + budget) \<times> db" where
  "toggleBudgetActive d uid bid =
     (case find (\<lambda>b. oid b = bid \<and> user b = uid) (budgets d) of
        None \<Rightarrow> (Inl (HttpError 404 ''Budget not found''), d)
      | Some budget \<Rightarrow>
          (let b' = budget\<lparr>isActive := \<not> isActive budget\<rparr>
           in (Inr b', d\<lparr>budgets := save_budget b' (budgets d)\<rparr>)))"

section \<open>Notions used to state the properties\<close>

text \<open>A budget is reconciled against a record collection when its cached
  \<open>spentAmount\<close> is the sum the reconciliation query computes there.\<close>

definition spent_total :: "frecord list \<Rightarrow> budget \<Rightarrow> rat" where
  "spent_total recs b = sum_list (map amount (filter (spent_match b) recs))"

definition reconciled :: "frecord list \<Rightarrow> budget \<Rightarrow> bool" where
  "reconciled recs b \<longleftrightarrow> spentAmount b = spent_total recs b"

definition active_count :: "budget list \<Rightarrow> nat \<Rightarrow> string \<Rightarrow> nat" where
  "active_count bs uid c = length (filter (\<lambda>b. user b = uid \<and> category b = c \<and> isActive b) bs)"

subsection \<open>The records and budgets of the scenarios\<close>

definition salary_record :: frecord where
  "salary_record = \<lparr>oid = 1, user = 1, category = ''Salary'', description = ''pay'',
     amount = 5000, rtype = Income, date = new_Date 2024 2 5 0 0 0 0,
     createdAt = new_Date 2024 2 5 9 0 0 0\<rparr>"

definition housing_record :: frecord where
  "housing_record = \<lparr>oid = 2, user = 1, category = ''Housing'', description = ''rent'',
     amount = 1200, rtype = Expense, date = new_Date 2024 2 10 0 0 0 0,
     createdAt = new_Date 2024 2 10 9 0 0 0\<rparr>"

definition food_record :: frecord where
  "food_record = \<lparr>oid = 3, user = 1, category = ''Food & Dining'', description = ''groceries'',
     amount = 500, rtype = Expense, date = new_Date 2024 2 15 0 0 0 0,
     createdAt = new_Date 2024 2 15 9 0 0 0\<rparr>"

definition march_records :: "frecord list" where
  "march_records = [salary_record, housing_record, food_record]"

definition food_budget :: budget where
  "food_budget = \<lparr>oid = 1, user = 1, category = ''Food & Dining'',
     budgetAmount = 600, spentAmount = 500, period = Monthly,
     startDate = new_Date 2024 2 1 0 0 0 0, endDate = new_Date 2024 3 0 0 0 0 0,
     isActive = True, alertThreshold = 80, color = ''#3B82F6''\<rparr>"

definition overall_budget :: budget where
  "overall_budget = \<lparr>oid = 2, user = 1, category = ''Overall Budget'',
     budgetAmount = 2000, spentAmount = 0, period = Monthly,
     startDate = new_Date 2024 2 1 0 0 0 0, endDate = new_Date 2024 3 0 0 0 0 0,
     isActive = True, alertThreshold = 80, color = ''#3B82F6''\<rparr>"

definition march_db :: db where
  "march_db = \<lparr>records = march_records, budgets = [food_budget, overall_budget]\<rparr>"

definition last_ms_record :: frecord where
  "last_ms_record = \<lparr>oid = 4, user = 1, category = ''Food & Dining'', description = ''late dinner'',
     amount = 40, rtype = Expense, date = new_Date 2024 2 31 23 59 59 999,
     createdAt = new_Date 2024 2 31 23 59 59 999\<rparr>"

definition yearly_update :: budget_update where
  "yearly_update = \<lparr>upd_budgetAmount = Some 600, upd_period = Some Yearly,
     upd_alertThreshold = Some 80, upd_category = Some ''Food & Dining''\<rparr>"

definition food_body :: budget_body where
  "food_body = \<lparr>body_category = ''Food & Dining'', body_budgetAmount = 300,
     body_period = Weekly, body_alertThreshold = None, body_color = None\<rparr>"

definition spare_food_budget :: budget where
  "spare_food_budget = \<lparr>oid = 3, user = 1, category = ''Food & Dining'',
     budgetAmount = 450, spentAmount = 0, period = Weekly,
     startDate = new_Date 2024 2 17 0 0 0 0, endDate = new_Date 2024 2 23 0 0 0 0,
     isActive = False, alertThreshold = 80, color = ''#3B82F6''\<rparr>"

definition transport_budget :: budget where
  "transport_budget = \<lparr>oid = 4, user = 1, category = ''Transportation'',
     budgetAmount = 150, spentAmount = 0, period = Monthly,
     startDate = new_Date 2024 2 1 0 0 0 0, endDate = new_Date 2024 3 0 0 0 0 0,
     isActive = True, alertThreshold = 80, color = ''#3B82F6''\<rparr>"

definition pair_db :: db where
  "pair_db = \<lparr>records = march_records, budgets = [food_budget, spare_food_budget]\<rparr>"

definition toggle_db :: db where
  "toggle_db = \<lparr>records = march_records,
     budgets = [food_budget, spare_food_budget, transport_budget]\<rparr>"

definition to_food_update :: budget_update where
  "to_food_update = \<lparr>upd_budgetAmount = Some 150, upd_period = Some Monthly,
     upd_alertThreshold = Some 80, upd_category = Some ''Food & Dining''\<rparr>"

text \<open>Scenario E moves the food expense to the unbudgeted category "Entertainment"; the
  other body keeps the category and moves the date to 20 April 2024.\<close>

definition to_entertainment :: record_body where
  "to_entertainment = \<lparr>new_description = ''groceries'', new_amount = 500, new_type = Expense,
     new_category = ''Entertainment'', new_date = None\<rparr>"

definition to_april :: record_body where
  "to_april = \<lparr>new_description = ''groceries'', new_amount = 500, new_type = Expense,
     new_category = ''Food & Dining'', new_date = Some (new_Date 2024 3 20 0 0 0 0)\<rparr>"


section \<open>The year search finds the year of a day\<close>

text \<open>For every day number, the year found is the largest year whose first day is not
  after that day, as the language specification defines \<^verbatim>\<open>YearFromTime\<close>.\<close>

lemma div_bounds:
  fixes x m :: int
  assumes "0 < m"
  shows "m * (x div m) \<le> x" and "x < m * (x div m) + m"
  using mult_div_mod_eq[of m x] pos_mod_sign[OF assms, of x] pos_mod_bound[OF assms, of x]
  by linarith+

lemma DayFromYear_expand:
  "400 * DayFromYear (1970 + k) =
     146000 * k + 400 * ((k + 1) div 4) - 400 * ((k + 69) div 100) + 400 * ((k + 369) div 400)"
proof -
  have "1 + k = k + 1" "69 + k = k + 69" "369 + k = k + 369" by simp_all
  then show ?thesis by (simp add: DayFromYear_def algebra_simps)
qed

lemma DayFromYear_lower: "146097 * k - 506 \<le> 400 * DayFromYear (1970 + k)"
proof -
  define a b c where "a = (k + 1) div 4" and "b = (k + 69) div 100" and "c = (k + 369) div 400"
  have "k + 1 < 4 * a + 4" "100 * b \<le> k + 69" "k + 369 < 400 * c + 400"
    using div_bounds[of 4 "k + 1"] div_bounds[of 100 "k + 69"] div_bounds[of 400 "k + 369"]
    by (simp_all add: a_def b_def c_def)
  then have "146097 * k - 506 \<le> 146000 * k + 400 * a - 400 * b + 400 * c" by linarith
  then show ?thesis by (simp only: DayFromYear_expand a_def b_def c_def)
qed

lemma DayFromYear_upper: "400 * DayFromYear (1970 + k) \<le> 146097 * k + 589"
proof -
  define a b c where "a = (k + 1) div 4" and "b = (k + 69) div 100" and "c = (k + 369) div 400"
  have "4 * a \<le> k + 1" "k + 69 < 100 * b + 100" "400 * c \<le> k + 369"
    using div_bounds[of 4 "k + 1"] div_bounds[of 100 "k + 69"] div_bounds[of 400 "k + 369"]
    by (simp_all add: a_def b_def c_def)
  then have "146000 * k + 400 * a - 400 * b + 400 * c \<le> 146097 * k + 589" by linarith
  then show ?thesis by (simp only: DayFromYear_expand a_def b_def c_def)
qed

lemma year_search_spec:
  "DayFromYear y \<le> d \<Longrightarrow> d < DayFromYear (y + int n + 1)
     \<Longrightarrow> DayFromYear (year_search n y d) \<le> d \<and> d < DayFromYear (year_search n y d + 1)"
proof (induction n arbitrary: y)
  case 0
  then show ?case by simp
next
  case (Suc n)
  show ?case
  proof (cases "DayFromYear (y + 1) \<le> d")
    case True
    have "d < DayFromYear (y + 1 + int n + 1)" using Suc.prems(2) by (simp add: algebra_simps)
    with Suc.IH[OF True] True show ?thesis by simp
  next
    case False
    with Suc.prems show ?thesis by simp
  qed
qed

lemma YearFromDay_spec:
  "DayFromYear (YearFromDay d) \<le> d \<and> d < DayFromYear (YearFromDay d + 1)"
proof (cases "0 \<le> d")
  case True
  define k where "k = d div 366"
  define j where "j = d div 365"
  have k: "366 * k \<le> d" "0 \<le> k" and j: "d < 365 * j + 365" "k \<le> j"
    using div_bounds[of 366 d, simplified] div_bounds[of 365 d, simplified] True
      zdiv_mono2[of d 365 366]
    by (auto simp: k_def j_def)
  have lo: "DayFromYear (1970 + k) \<le> d"
  proof (cases "k \<le> 1")
    case True
    then have "k = 0 \<or> k = 1" using k by linarith
    then show ?thesis using k \<open>0 \<le> d\<close> by (auto simp: DayFromYear_def)
  next
    case False
    then show ?thesis using DayFromYear_upper[of k] k by linarith
  qed
  have n: "int (nat (\<bar>d\<bar> div 365 - \<bar>d\<bar> div 366 + 2)) = j - k + 2"
    using True j by (simp add: k_def j_def)
  have hi: "d < DayFromYear (1970 + k + int (nat (\<bar>d\<bar> div 365 - \<bar>d\<bar> div 366 + 2)) + 1)"
  proof -
    have "1970 + k + (j - k + 2) + 1 = 1970 + (j + 3)" by simp
    then show ?thesis unfolding n using DayFromYear_lower[of "j + 3"] j k by simp
  qed
  show ?thesis
    unfolding YearFromDay_def using year_search_spec[OF lo hi] True by (simp add: k_def)
next
  case False
  define k where "k = d div 365"
  have absd: "\<bar>d\<bar> = - d" using False by simp
  define a where "a = (- d) div 365"
  define b where "b = (- d) div 366"
  have k: "365 * k \<le> d" "d < 365 * k + 365" "k < 0"
    using div_bounds[of 365 d, simplified] False by (auto simp: k_def)
  have ab: "365 * a \<le> - d" "- d < 365 * a + 365" "366 * b \<le> - d" "b \<le> a" "0 \<le> b"
    using div_bounds[of 365 "- d", simplified] div_bounds[of 366 "- d", simplified] False
      zdiv_mono2[of "- d" 365 366] pos_imp_zdiv_nonneg_iff[of 366 "- d"]
    by (auto simp: a_def b_def)
  have lo: "DayFromYear (1970 + k) \<le> d"
  proof (cases "k \<le> - 2")
    case True
    then show ?thesis using DayFromYear_upper[of k] k by linarith
  next
    case False
    then have "k = -1" using k by linarith
    then show ?thesis using k by (simp add: DayFromYear_def)
  qed
  have n: "int (nat (\<bar>d\<bar> div 365 - \<bar>d\<bar> div 366 + 2)) = a - b + 2"
    unfolding absd using ab by (simp add: a_def b_def)
  have hi: "d < DayFromYear (1970 + k + int (nat (\<bar>d\<bar> div 365 - \<bar>d\<bar> div 366 + 2)) + 1)"
  proof -
    have "1970 + k + (a - b + 2) + 1 = 1970 + (k + a - b + 3)" by simp
    then show ?thesis unfolding n using DayFromYear_lower[of "k + a - b + 3"] k ab by simp
  qed
  show ?thesis
    unfolding YearFromDay_def using year_search_spec[OF lo hi] False by (simp add: k_def)
qed

section \<open>The aggregation stages compute sums\<close>







text \<open>Grouping on the constant key \<^verbatim>\<open>_id: null\<close> gives no group for no record and one
  group otherwise.\<close>

lemma foldl_group_unit:
  "foldl (\<lambda>gs r. group_add () (amount r) gs) [g] xs
     = [g\<lparr>total := total g + sum_list (map amount xs), count := count g + length xs\<rparr>]"
  by (induction xs arbitrary: g) (auto simp: algebra_simps)

lemma group_stage_unit:
  "group_stage (\<lambda>r. ()) xs =
     (case xs of [] \<Rightarrow> []
      | x # _ \<Rightarrow> [\<lparr>gid = (), total = sum_list (map amount xs), count = length xs\<rparr>])"
  by (cases xs) (simp_all add: group_stage_def foldl_group_unit)

lemma spent_value:
  "(let result = group_stage (\<lambda>r. ()) xs in if length result > 0 then total (hd result) else 0)
     = sum_list (map amount xs)"
  by (cases xs) (simp_all add: group_stage_unit)




section \<open>Reconciliation\<close>

lemma spent_match_spentAmount_update [simp]:
  "spent_match (b\<lparr>spentAmount := x\<rparr>) = spent_match b"
  by (simp add: spent_match_def fun_eq_iff)

lemma save_budget_idem:
  "save_budget b (save_budget b bs) = save_budget b bs"
  by (induction bs) (auto simp: save_budget_def)

lemma updateSpentAmount_eq:
  "updateSpentAmount d b =
     (b\<lparr>spentAmount := sum_list (map amount (filter (spent_match b) (records d)))\<rparr>,
      d\<lparr>budgets := save_budget (b\<lparr>spentAmount := sum_list (map amount (filter (spent_match b) (records d)))\<rparr>)
                      (budgets d)\<rparr>)"
  using spent_value[of "filter (spent_match b) (records d)"]
  by (simp add: updateSpentAmount_def Let_def)

text \<open>
  C1, as stated, at the sentinel category: the budget "Overall Budget" of the March
  scenario is reconciled to 0, the sum of the expense records labelled "Overall Budget"
  in its window, while the user's all-time expense total is 1700.
\<close>

theorem overall_budget_not_all_time_total:
  "spentAmount (fst (updateSpentAmount march_db overall_budget)) = 0
   \<and> expense (getUserBalance (records march_db) (user overall_budget)) = 1700
   \<and> spentAmount (fst (updateSpentAmount march_db overall_budget))
       \<noteq> expense (getUserBalance (records march_db) (user overall_budget))"
  by code_simp

text \<open>
  C1, amended: for every budget, the sentinel category included, updateSpentAmount sets
  \<open>spentAmount\<close> to the sum of the amounts of the user's expense records whose category
  equals the budget's category exactly and whose date lies in [startDate, endDate], both
  ends included, and saves the budget with that value.
\<close>

theorem updateSpentAmount_sums_category_window:
  "spentAmount (fst (updateSpentAmount d b)) =
     sum_list (map amount (filter (\<lambda>r. user r = user b \<and> rtype r = Expense \<and>
        category r = category b \<and> startDate b \<le> date r \<and> date r \<le> endDate b) (records d)))
   \<and> snd (updateSpentAmount d b) = d\<lparr>budgets := save_budget (fst (updateSpentAmount d b)) (budgets d)\<rparr>"
  using spent_value[of "filter (spent_match b) (records d)"]
  by (simp add: updateSpentAmount_def Let_def spent_match_def[abs_def])

text \<open>
  C8: reconciliation is idempotent. A second updateSpentAmount on the budget and the
  database the first one returned, with the records untouched, returns the same budget
  and the same database, so the stored \<open>spentAmount\<close> is the same both times.
\<close>

theorem updateSpentAmount_idempotent:
  "updateSpentAmount (snd (updateSpentAmount d b)) (fst (updateSpentAmount d b))
     = updateSpentAmount d b
   \<and> spentAmount (fst (updateSpentAmount (snd (updateSpentAmount d b)) (fst (updateSpentAmount d b))))
     = spentAmount (fst (updateSpentAmount d b))"
  by (simp add: updateSpentAmount_eq save_budget_idem)

section \<open>Budget virtuals\<close>



section \<open>Aggregation engine\<close>

text \<open>The end bound of a month's summary is one second before the first instant of the
  next month, whatever the month and the year.\<close>

lemma month_end_bound:
  "new_Date y m 0 23 59 59 0 = new_Date y m 1 0 0 0 0 - 1000"
  by (simp add: new_Date_def MakeDate_def MakeDay_def MakeTime_def msPerDay_def Let_def)

text \<open>
  C4 at a record on the last instant of a month: the record dated 2024-03-31
  23:59:59.999 lies in March 2024 (the next millisecond is the first instant of April),
  and the summary of March 2024 does not count it.
\<close>

theorem monthly_summary_misses_last_second:
  "YearFromTime (date last_ms_record) = 2024 \<and> MonthFromTime (date last_ms_record) = 2
   \<and> date last_ms_record + 1 = new_Date 2024 3 1 0 0 0 0
   \<and> getMonthlySummary [last_ms_record] 1 2024 3 = \<lparr>income = 0, expense = 0, balance = 0\<rparr>
   \<and> monthly_summary_route [last_ms_record] 1 (Some 2024) (Some 3)
       = Inr \<lparr>income = 0, expense = 0, balance = 0\<rparr>"
  by code_simp


section \<open>Creating and updating budgets\<close>

text \<open>
  C6: when the user already has an active budget for the category of the request,
  createBudget answers with the 400 error "Active budget already exists for this
  category" and returns the database as it was: no budget is added and no field of any
  stored budget changes.
\<close>

theorem createBudget_duplicate_rejected:
  assumes "b \<in> set (budgets d)" and "user b = uid"
    and "category b = body_category body" and "isActive b"
  shows "createBudget d uid now body =
           (Inl (HttpError 400 ''Active budget already exists for this category''), d)"
proof -
  have "find_active_budget (budgets d) uid (body_category body) \<noteq> None"
    using assms by (auto simp: find_active_budget_def find_None_iff)
  then show ?thesis by (auto simp: createBudget_def)
qed

text \<open>The March scenario already holds an active budget for "Food & Dining".\<close>

theorem createBudget_duplicate_rejected_witness:
  "food_budget \<in> set (budgets march_db) \<and> user food_budget = 1
   \<and> category food_budget = body_category food_body \<and> isActive food_budget
   \<and> createBudget march_db 1 (new_Date 2024 2 20 12 0 0 0) food_body =
       (Inl (HttpError 400 ''Active budget already exists for this category''), march_db)"
proof -
  have h1: "food_budget \<in> set (budgets march_db)" by (simp add: march_db_def)
  have h2: "user food_budget = 1" by (simp add: food_budget_def)
  have h3: "category food_budget = body_category food_body"
    by (simp add: food_budget_def food_body_def)
  have h4: "isActive food_budget" by (simp add: food_budget_def)
  show ?thesis
    using h1 h2 h3 h4
      createBudget_duplicate_rejected [OF h1 h2 h3 h4, of "new_Date 2024 2 20 12 0 0 0"]
    by simp
qed

text \<open>
  C2 at a period change: the monthly budget of the March scenario is updated on
  2024-03-20 with period yearly. The route stores the new period before it compares the
  request's period with the stored one, so the comparison never sees a change: the
  budget comes back yearly with the window of March, where the rule of createBudget
  gives 1 January to 31 December 2024.
\<close>

theorem updateBudget_period_change_keeps_window:
  "(case fst (updateBudget march_db 1 (oid food_budget) (new_Date 2024 2 20 12 0 0 0) yearly_update) of
      Inl e \<Rightarrow> False
    | Inr b' \<Rightarrow> period food_budget = Monthly \<and> period b' = Yearly
        \<and> startDate b' = new_Date 2024 2 1 0 0 0 0
        \<and> endDate b' = new_Date 2024 3 0 0 0 0 0)
   \<and> period_window (new_Date 2024 2 20 12 0 0 0) Yearly
       = (new_Date 2024 0 1 0 0 0 0, new_Date 2024 11 31 0 0 0 0)
   \<and> new_Date 2024 0 1 0 0 0 0 \<noteq> new_Date 2024 2 1 0 0 0 0"
  by code_simp

section \<open>Saving one document of a collection with distinct ids\<close>

lemma find_by_oid:
  "distinct (map oid bs) \<Longrightarrow> b \<in> set bs \<Longrightarrow> user b = uid
     \<Longrightarrow> find (\<lambda>x. oid x = oid b \<and> user x = uid) bs = Some b"
  by (induction bs) (auto simp: rev_image_eqI)

lemma save_budget_absent:
  "oid b \<notin> oid ` set bs \<Longrightarrow> save_budget b bs = bs"
  by (induction bs) (auto simp: save_budget_def)

lemma save_budget_twice:
  "oid b' = oid b \<Longrightarrow> save_budget b' (save_budget b bs) = save_budget b' bs"
  by (induction bs) (auto simp: save_budget_def)

lemma map_oid_save_budget [simp]:
  "map oid (save_budget b bs) = map oid bs"
  by (induction bs) (auto simp: save_budget_def)

lemma count_save_gain:
  "distinct (map oid bs) \<Longrightarrow> b \<in> set bs \<Longrightarrow> oid b' = oid b \<Longrightarrow> \<not> P b \<Longrightarrow> P b'
     \<Longrightarrow> length (filter P (save_budget b' bs)) = Suc (length (filter P bs))"
proof (induction bs)
  case Nil
  then show ?case by simp
next
  case (Cons x bs)
  show ?case
  proof (cases "x = b")
    case True
    with Cons.prems have "oid b' \<notin> oid ` set bs" by auto
    then have "save_budget b' bs = bs" by (rule save_budget_absent)
    then have "save_budget b' (x # bs) = b' # bs"
      using True Cons.prems(3) by (simp add: save_budget_def)
    with Cons.prems True show ?thesis by simp
  next
    case False
    with Cons.prems have in_tl: "b \<in> set bs" and ne: "oid x \<noteq> oid b'" by auto
    have "save_budget b' (x # bs) = x # save_budget b' bs"
      using ne by (simp add: save_budget_def)
    moreover have "length (filter P (save_budget b' bs)) = Suc (length (filter P bs))"
      using Cons.IH Cons.prems in_tl by simp
    ultimately show ?thesis by simp
  qed
qed

text \<open>The update route answers with the stored budget under the fields of the body; the
  window is the stored one whatever period the body carries.\<close>

lemma updateBudget_found:
  assumes "find (\<lambda>x. oid x = bid \<and> user x = uid) (budgets d) = Some b"
  shows "\<exists>b'. updateBudget d uid bid now body = (Inr b', d\<lparr>budgets := save_budget b' (budgets d)\<rparr>)
     \<and> oid b' = oid b \<and> user b' = user b \<and> isActive b' = isActive b
     \<and> category b' = (case upd_category body of None \<Rightarrow> category b | Some c \<Rightarrow> c)
     \<and> period b' = (case upd_period body of None \<Rightarrow> period b | Some p \<Rightarrow> p)
     \<and> startDate b' = startDate b \<and> endDate b' = endDate b"
  using assms
  by (simp add: updateBudget_def Let_def updateSpentAmount_eq save_budget_twice split: option.splits)

text \<open>
  C9: the route that toggles a budget and the route that updates one never look for
  another active budget of the same user and category. In a database with distinct budget
  ids where the user has exactly one active budget \<open>b1\<close> for a category: toggling an
  inactive budget \<open>b2\<close> of the user for the same category succeeds and leaves two
  active budgets for the category; updating an active budget \<open>b3\<close> of the user from
  another category to this one succeeds and leaves two active budgets for it as well;
  and createBudget for the category is refused.
\<close>

theorem toggle_and_update_skip_duplicate_check:
  assumes dist: "distinct (map oid (budgets d))"
    and b1: "b1 \<in> set (budgets d)" "user b1 = uid" "isActive b1"
    and one: "active_count (budgets d) uid (category b1) = 1"
  shows "(b2 \<in> set (budgets d) \<and> user b2 = uid \<and> \<not> isActive b2 \<and> category b2 = category b1
            \<longrightarrow> fst (toggleBudgetActive d uid (oid b2)) = Inr (b2\<lparr>isActive := True\<rparr>)
              \<and> active_count (budgets (snd (toggleBudgetActive d uid (oid b2)))) uid (category b1) = 2)
    \<and> (b3 \<in> set (budgets d) \<and> user b3 = uid \<and> isActive b3 \<and> category b3 \<noteq> category b1
            \<longrightarrow> (\<exists>b'. fst (updateBudget d uid (oid b3) now
                          (body\<lparr>upd_category := Some (category b1)\<rparr>)) = Inr b')
              \<and> active_count (budgets (snd (updateBudget d uid (oid b3) now
                    (body\<lparr>upd_category := Some (category b1)\<rparr>)))) uid (category b1) = 2)
    \<and> fst (createBudget d uid now (cb\<lparr>body_category := category b1\<rparr>))
        = Inl (HttpError 400 ''Active budget already exists for this category'')"
proof (intro conjI impI)
  let ?P = "\<lambda>b. user b = uid \<and> category b = category b1 \<and> isActive b"
  {
    assume b2: "b2 \<in> set (budgets d) \<and> user b2 = uid \<and> \<not> isActive b2 \<and> category b2 = category b1"
    have f2: "find (\<lambda>x. oid x = oid b2 \<and> user x = uid) (budgets d) = Some b2"
      using dist b2 by (simp add: find_by_oid)
    have tog: "toggleBudgetActive d uid (oid b2)
        = (Inr (b2\<lparr>isActive := True\<rparr>), d\<lparr>budgets := save_budget (b2\<lparr>isActive := True\<rparr>) (budgets d)\<rparr>)"
      using f2 b2 by (simp add: toggleBudgetActive_def Let_def)
    show "fst (toggleBudgetActive d uid (oid b2)) = Inr (b2\<lparr>isActive := True\<rparr>)"
      by (simp add: tog)
    have "length (filter ?P (save_budget (b2\<lparr>isActive := True\<rparr>) (budgets d)))
        = Suc (length (filter ?P (budgets d)))"
      using dist b2 by (intro count_save_gain) auto
    then show "active_count (budgets (snd (toggleBudgetActive d uid (oid b2)))) uid (category b1) = 2"
      using one by (simp add: tog active_count_def)
  }
  {
    assume b3: "b3 \<in> set (budgets d) \<and> user b3 = uid \<and> isActive b3 \<and> category b3 \<noteq> category b1"
    have f3: "find (\<lambda>x. oid x = oid b3 \<and> user x = uid) (budgets d) = Some b3"
      using dist b3 by (simp add: find_by_oid)
    obtain b' where upd: "updateBudget d uid (oid b3) now (body\<lparr>upd_category := Some (category b1)\<rparr>)
          = (Inr b', d\<lparr>budgets := save_budget b' (budgets d)\<rparr>)"
        and props: "oid b' = oid b3" "user b' = user b3" "isActive b' = isActive b3"
          "category b' = category b1"
      using updateBudget_found[OF f3, of now "body\<lparr>upd_category := Some (category b1)\<rparr>"] by auto
    show "\<exists>b'. fst (updateBudget d uid (oid b3) now
                          (body\<lparr>upd_category := Some (category b1)\<rparr>)) = Inr b'"
      by (simp add: upd)
    have "length (filter ?P (save_budget b' (budgets d))) = Suc (length (filter ?P (budgets d)))"
      using dist b3 props by (intro count_save_gain) auto
    then show "active_count (budgets (snd (updateBudget d uid (oid b3) now
            (body\<lparr>upd_category := Some (category b1)\<rparr>)))) uid (category b1) = 2"
      using one by (simp add: upd active_count_def)
  }
  have "find_active_budget (budgets d) uid (category b1) \<noteq> None"
    using b1 by (auto simp: find_active_budget_def find_None_iff)
  then show "fst (createBudget d uid now (cb\<lparr>body_category := category b1\<rparr>))
        = Inl (HttpError 400 ''Active budget already exists for this category'')"
    by (auto simp: createBudget_def)
qed

text \<open>The state of the claim, one active and one inactive budget for "Food & Dining", for
  the toggle; and the same state with an active budget for "Transportation" added, for
  the update.\<close>

theorem toggle_and_update_skip_duplicate_check_witness:
  "distinct (map oid (budgets pair_db))
   \<and> food_budget \<in> set (budgets pair_db) \<and> user food_budget = 1 \<and> isActive food_budget
   \<and> active_count (budgets pair_db) 1 ''Food & Dining'' = 1
   \<and> spare_food_budget \<in> set (budgets pair_db) \<and> user spare_food_budget = 1
   \<and> \<not> isActive spare_food_budget \<and> category spare_food_budget = category food_budget
   \<and> fst (toggleBudgetActive pair_db 1 3) = Inr (spare_food_budget\<lparr>isActive := True\<rparr>)
   \<and> active_count (budgets (snd (toggleBudgetActive pair_db 1 3))) 1 ''Food & Dining'' = 2
   \<and> distinct (map oid (budgets toggle_db))
   \<and> food_budget \<in> set (budgets toggle_db)
   \<and> active_count (budgets toggle_db) 1 ''Food & Dining'' = 1
   \<and> transport_budget \<in> set (budgets toggle_db) \<and> user transport_budget = 1
   \<and> isActive transport_budget \<and> category transport_budget \<noteq> category food_budget
   \<and> active_count (budgets (snd (updateBudget toggle_db 1 4 (new_Date 2024 2 20 12 0 0 0)
         to_food_update))) 1 ''Food & Dining'' = 2
   \<and> fst (createBudget pair_db 1 (new_Date 2024 2 20 12 0 0 0) food_body)
        = Inl (HttpError 400 ''Active budget already exists for this category'')"
proof -
  have c: "category food_budget = ''Food & Dining''" by (simp add: food_budget_def)
  have h0: "distinct (map oid (budgets pair_db))" by code_simp
  have h1: "food_budget \<in> set (budgets pair_db)" "user food_budget = 1" "isActive food_budget"
    by (simp_all add: pair_db_def food_budget_def)
  have h2: "active_count (budgets pair_db) 1 (category food_budget) = 1"
    unfolding c by code_simp
  have h3: "spare_food_budget \<in> set (budgets pair_db) \<and> user spare_food_budget = 1
      \<and> \<not> isActive spare_food_budget \<and> category spare_food_budget = category food_budget"
    by (simp add: pair_db_def spare_food_budget_def food_budget_def)
  have k0: "distinct (map oid (budgets toggle_db))" by code_simp
  have k1: "food_budget \<in> set (budgets toggle_db)" by (simp add: toggle_db_def)
  have k2: "active_count (budgets toggle_db) 1 (category food_budget) = 1"
    unfolding c by code_simp
  have k3: "transport_budget \<in> set (budgets toggle_db) \<and> user transport_budget = 1
      \<and> isActive transport_budget \<and> category transport_budget \<noteq> category food_budget"
    by (simp add: toggle_db_def transport_budget_def food_budget_def)
  have ids: "oid spare_food_budget = 3" "oid transport_budget = 4"
    by (simp_all add: spare_food_budget_def transport_budget_def)
  have body: "to_food_update\<lparr>upd_category := Some ''Food & Dining''\<rparr> = to_food_update"
    "food_body\<lparr>body_category := ''Food & Dining''\<rparr> = food_body"
    by (simp_all add: to_food_update_def food_body_def)
  note t1 = toggle_and_update_skip_duplicate_check [OF h0 h1 h2,
      of spare_food_budget transport_budget "new_Date 2024 2 20 12 0 0 0" to_food_update food_body]
  note t2 = toggle_and_update_skip_duplicate_check [OF k0 k1 h1(2,3) k2,
      of spare_food_budget transport_budget "new_Date 2024 2 20 12 0 0 0" to_food_update food_body]
  show ?thesis using h0 h1 h2 h3 k0 k1 k2 k3 t1 t2 by (simp add: c ids body)
qed

section \<open>Record update and reconciliation\<close>

lemma updateSpentAmount_total:
  "updateSpentAmount d b =
     (b\<lparr>spentAmount := spent_total (records d) b\<rparr>,
      d\<lparr>budgets := save_budget (b\<lparr>spentAmount := spent_total (records d) b\<rparr>) (budgets d)\<rparr>)"
  by (simp add: updateSpentAmount_eq spent_total_def)

lemma reconcile_found_simps:
  "reconcile_found d None = d"
  "reconcile_found d (Some b) =
     d\<lparr>budgets := save_budget (b\<lparr>spentAmount := spent_total (records d) b\<rparr>) (budgets d)\<rparr>"
  by (simp_all add: reconcile_found_def updateSpentAmount_total)

lemma records_reconcile_found [simp]:
  "records (reconcile_found d found) = records d"
  by (cases found) (simp_all add: reconcile_found_simps)

lemma distinct_oid_eq:
  "distinct (map oid bs) \<Longrightarrow> x \<in> set bs \<Longrightarrow> b \<in> set bs \<Longrightarrow> oid x = oid b \<Longrightarrow> x = b"
  by (auto simp: distinct_map dest: inj_onD)

lemma save_budget_as_map:
  assumes "distinct (map oid bs)" and "b \<in> set bs" and "oid b' = oid b"
  shows "save_budget b' bs = map (\<lambda>x. if x = b then b' else x) bs"
  unfolding save_budget_def
proof (rule map_cong[OF refl])
  fix x assume "x \<in> set bs"
  then show "(if oid x = oid b' then b' else x) = (if x = b then b' else x)"
    using assms distinct_oid_eq[of bs x b] by auto
qed

lemma find_map_replace:
  "\<not> Q b \<Longrightarrow> \<not> Q b' \<Longrightarrow> find Q (map (\<lambda>x. if x = b then b' else x) bs) = find Q bs"
  by (induction bs) auto

lemma find_SomeD:
  "find P xs = Some x \<Longrightarrow> x \<in> set xs \<and> P x"
  by (auto simp: find_Some_iff)

lemma spent_total_spentAmount_update [simp]:
  "spent_total recs (b\<lparr>spentAmount := x\<rparr>) = spent_total recs b"
  by (simp add: spent_total_def)

lemma spent_total_save_record:
  "distinct (map oid rs) \<Longrightarrow> r \<in> set rs \<Longrightarrow> oid r' = oid r
     \<Longrightarrow> spent_total (save_record r' rs) b
         = spent_total rs b - (if spent_match b r then amount r else 0)
             + (if spent_match b r' then amount r' else 0)"
proof (induction rs)
  case Nil
  then show ?case by simp
next
  case (Cons x rs)
  show ?case
  proof (cases "x = r")
    case True
    with Cons.prems have "oid r' \<notin> oid ` set rs" by auto
    then have "save_record r' rs = rs"
      by (induction rs) (auto simp: save_record_def)
    then have "save_record r' (x # rs) = r' # rs"
      using True Cons.prems(3) by (simp add: save_record_def)
    then show ?thesis using True by (simp add: spent_total_def)
  next
    case False
    with Cons.prems have in_tl: "r \<in> set rs" and ne: "oid x \<noteq> oid r'" by auto
    have "save_record r' (x # rs) = x # save_record r' rs"
      using ne by (simp add: save_record_def)
    moreover have "spent_total (save_record r' rs) b
         = spent_total rs b - (if spent_match b r then amount r else 0)
             + (if spent_match b r' then amount r' else 0)"
      using Cons.IH Cons.prems in_tl by simp
    ultimately show ?thesis by (simp add: spent_total_def)
  qed
qed

lemma updateRecord_budgets:
  assumes dist: "distinct (map oid (budgets d))"
    and found: "find (\<lambda>x. oid x = rid \<and> user x = uid) (records d) = Some r"
  shows "fst (updateRecord d uid rid body) = Inr (assign_body r body)
    \<and> records (snd (updateRecord d uid rid body)) = save_record (assign_body r body) (records d)
    \<and> budgets (snd (updateRecord d uid rid body)) =
        map (\<lambda>b. if (rtype r = Expense \<or> new_type body = Expense) \<and>
                     ((category r \<noteq> new_category body \<and>
                         find_active_budget (budgets d) uid (category r) = Some b) \<or>
                      find_active_budget_at (budgets d) uid (new_category body)
                         (date (assign_body r body)) = Some b)
                  then b\<lparr>spentAmount := spent_total (save_record (assign_body r body) (records d)) b\<rparr>
                  else b)
          (budgets d)"
proof -
  define r' where "r' = assign_body r body"
  define recs' where "recs' = save_record r' (records d)"
  define d1 where "d1 = d\<lparr>records := recs'\<rparr>"
  define bs where "bs = budgets d"
  define old where "old = find_active_budget bs uid (category r)"
  define new where "new = find_active_budget_at bs uid (category r') (date r')"
  define d2 where "d2 = (if category r \<noteq> category r' then reconcile_found d1 old else d1)"
  define S where "S = (\<lambda>b. b\<lparr>spentAmount := spent_total recs' b\<rparr>)"
  have r'_simps: "category r' = new_category body" "rtype r' = new_type body"
    by (simp_all add: r'_def assign_body_def)
  have d1_simps: "records d1 = recs'" "budgets d1 = bs"
    by (simp_all add: d1_def bs_def)
  have dist': "distinct (map oid bs)" using dist by (simp add: bs_def)
  have upd: "updateRecord d uid rid body =
      (Inr r',
       if rtype r = Expense \<or> rtype r' = Expense then
         reconcile_found d2 (find_active_budget_at (budgets d2) uid (category r') (date r'))
       else d1)"
    using found
    by (simp add: updateRecord_def Let_def r'_def recs'_def d1_def old_def bs_def d2_def)
  have S_oid: "\<And>b. oid (S b) = oid b" by (simp add: S_def)
  have new_rec: "\<And>b. b \<in> set bs \<Longrightarrow> reconcile_found d1 (Some b)
        = d1\<lparr>budgets := map (\<lambda>x. if x = b then S b else x) bs\<rparr>"
    using dist' by (simp add: reconcile_found_simps d1_simps S_def save_budget_as_map)
  have goal_budgets: "budgets (snd (updateRecord d uid rid body)) =
      map (\<lambda>b. if (rtype r = Expense \<or> rtype r' = Expense) \<and>
                   ((category r \<noteq> category r' \<and> old = Some b) \<or> new = Some b)
                then S b else b) bs"
  proof (cases "rtype r = Expense \<or> rtype r' = Expense")
    case False
    then show ?thesis by (simp add: upd d1_simps)
  next
    case E: True
    show ?thesis
    proof (cases "category r \<noteq> category r' \<and> old \<noteq> None")
      case False
      then have d2: "d2 = d1"
        by (auto simp: d2_def reconcile_found_simps)
      show ?thesis
      proof (cases new)
        case None
        then show ?thesis using E False
          by (auto simp: upd Let_def d2 d1_simps new_def[symmetric] reconcile_found_simps
              intro!: map_idI[symmetric])
      next
        case (Some nb)
        then have "nb \<in> set bs" by (auto simp: new_def find_active_budget_at_def dest: find_SomeD)
        then show ?thesis using E False Some
          by (auto simp: upd Let_def d2 d1_simps new_def[symmetric] new_rec)
      qed
    next
      case True
      then obtain ob where ob: "old = Some ob" and changed: "category r \<noteq> category r'" by auto
      have ob_in: "ob \<in> set bs" and ob_cat: "category ob = category r"
        using ob by (auto simp: old_def find_active_budget_def dest: find_SomeD)
      let ?f = "\<lambda>x. if x = ob then S ob else x"
      have d2: "d2 = d1\<lparr>budgets := map ?f bs\<rparr>"
        using changed ob ob_in by (simp add: d2_def new_rec)
      have look: "find_active_budget_at (map ?f bs) uid (category r') (date r') = new"
        unfolding find_active_budget_at_def new_def
        using changed ob_cat by (intro find_map_replace) (auto simp: S_def)
      show ?thesis
      proof (cases new)
        case None
        then show ?thesis using E changed ob
          by (auto simp: upd Let_def d2 look reconcile_found_simps)
      next
        case (Some nb)
        then have nb_in: "nb \<in> set bs" and nb_cat: "category nb = category r'"
          by (auto simp: new_def find_active_budget_at_def dest: find_SomeD)
        have ne: "nb \<noteq> ob" using nb_cat ob_cat changed by auto
        have nb_in': "nb \<in> set (map ?f bs)" using nb_in ne by (auto simp: image_iff)
        have dist2: "distinct (map oid (map ?f bs))"
        proof -
          have "oid \<circ> ?f = oid" by (auto simp: fun_eq_iff S_oid)
          then have "map oid (map ?f bs) = map oid bs" by (simp only: map_map)
          then show ?thesis using dist' by (simp only:)
        qed
        have "budgets (snd (updateRecord d uid rid body))
            = save_budget (S nb) (map ?f bs)"
          using E Some by (simp add: upd Let_def d2 look reconcile_found_simps d1_def S_def)
        also have "\<dots> = map (\<lambda>x. if x = nb then S nb else x) (map ?f bs)"
          using dist2 nb_in' by (intro save_budget_as_map) (auto simp: S_oid)
        also have "\<dots> = map (\<lambda>b. if (rtype r = Expense \<or> rtype r' = Expense) \<and>
                   ((category r \<noteq> category r' \<and> old = Some b) \<or> new = Some b)
                then S b else b) bs"
          using E changed ob Some ne nb_cat ob_cat by (auto simp: S_def)
        finally show ?thesis .
      qed
    qed
  qed
  have goal_records: "records (snd (updateRecord d uid rid body)) = recs'"
    by (simp add: upd d2_def d1_simps)
  show ?thesis
    using goal_budgets goal_records
    by (simp add: upd r'_simps S_def recs'_def old_def new_def bs_def r'_def[symmetric])
qed

text \<open>
  C3, as stated, where the category does not change: the food expense of the March
  scenario keeps its category and moves to 20 April 2024, out of the window of the active
  food budget. The old type is expense, the active budget matching the old category is
  the food budget, reconciled before the update; after the update it still stores 500,
  while the expenses of its category in its window add up to 0.
\<close>

theorem updateRecord_same_category_not_reconciled:
  "rtype food_record = Expense
   \<and> find (\<lambda>x. oid x = 3 \<and> user x = 1) (records march_db) = Some food_record
   \<and> find_active_budget (budgets march_db) 1 (category food_record) = Some food_budget
   \<and> reconciled (records march_db) food_budget
   \<and> find_active_budget (budgets (snd (updateRecord march_db 1 3 to_april))) 1 (category food_record)
        = Some food_budget
   \<and> spentAmount food_budget = 500
   \<and> spent_total (records (snd (updateRecord march_db 1 3 to_april))) food_budget = 0
   \<and> \<not> reconciled (records (snd (updateRecord march_db 1 3 to_april))) food_budget"
  by code_simp

text \<open>
  C3, amended: for every updateRecord call on an existing owned record, in a database
  with distinct ids, the record is overwritten with the body and the budgets change as
  follows. When the old type or the new type is expense, two budgets are reconciled
  against the updated records: the first active budget of the old category if the
  category changed, and the first active budget of the new category whose window
  contains the new date. No other budget changes; in particular, when the category does
  not change, the old category's budget is reconciled only if its window contains the
  new date. The reconciled sum of a budget is its sum before, less the old amount if the
  old record matched it, plus the new amount if the new record matches it. In the
  Scenario E instance (an expense that matched the reconciled active budget \<open>ob\<close> of
  its category moves to a category with no active budget around its date) the
  \<open>spentAmount\<close> of \<open>ob\<close> decreases by the record's amount and no other budget changes.
\<close>

theorem updateRecord_reconciles:
  assumes dist: "distinct (map oid (budgets d))"
    and rdist: "distinct (map oid (records d))"
    and found: "find (\<lambda>x. oid x = rid \<and> user x = uid) (records d) = Some r"
  shows "fst (updateRecord d uid rid body) = Inr (assign_body r body)
    \<and> records (snd (updateRecord d uid rid body)) = save_record (assign_body r body) (records d)
    \<and> budgets (snd (updateRecord d uid rid body)) =
        map (\<lambda>b. if (rtype r = Expense \<or> new_type body = Expense) \<and>
                     ((category r \<noteq> new_category body \<and>
                         find_active_budget (budgets d) uid (category r) = Some b) \<or>
                      find_active_budget_at (budgets d) uid (new_category body)
                         (date (assign_body r body)) = Some b)
                  then b\<lparr>spentAmount := spent_total (records (snd (updateRecord d uid rid body))) b\<rparr>
                  else b)
          (budgets d)
    \<and> spent_total (records (snd (updateRecord d uid rid body))) b
        = spent_total (records d) b - (if spent_match b r then amount r else 0)
            + (if spent_match b (assign_body r body) then amount (assign_body r body) else 0)
    \<and> (if rtype r = Expense \<and> category r \<noteq> new_category body
           \<and> find_active_budget (budgets d) uid (category r) = Some ob
           \<and> reconciled (records d) ob \<and> spent_match ob r
           \<and> find_active_budget_at (budgets d) uid (new_category body)
                (date (assign_body r body)) = None
        then budgets (snd (updateRecord d uid rid body)) =
               map (\<lambda>b. if b = ob then ob\<lparr>spentAmount := spentAmount ob - amount r\<rparr> else b)
                 (budgets d)
        else True)"
proof -
  let ?r' = "assign_body r body"
  let ?d' = "snd (updateRecord d uid rid body)"
  note base = updateRecord_budgets [OF dist found, of body]
  have recs: "records ?d' = save_record ?r' (records d)" using base by simp
  have r_in: "r \<in> set (records d)" using found by (auto dest: find_SomeD)
  have oid_r': "oid ?r' = oid r" by (simp add: assign_body_def)
  have delta: "\<And>x. spent_total (records ?d') x
        = spent_total (records d) x - (if spent_match x r then amount r else 0)
            + (if spent_match x ?r' then amount ?r' else 0)"
    unfolding recs using rdist r_in oid_r' by (rule spent_total_save_record)
  have bud: "budgets ?d' =
        map (\<lambda>b. if (rtype r = Expense \<or> new_type body = Expense) \<and>
                     ((category r \<noteq> new_category body \<and>
                         find_active_budget (budgets d) uid (category r) = Some b) \<or>
                      find_active_budget_at (budgets d) uid (new_category body) (date ?r') = Some b)
                  then b\<lparr>spentAmount := spent_total (records ?d') b\<rparr>
                  else b)
          (budgets d)"
    using base by (simp only: recs)
  have scen: "budgets ?d' =
               map (\<lambda>b. if b = ob then ob\<lparr>spentAmount := spentAmount ob - amount r\<rparr> else b)
                 (budgets d)"
    if e: "rtype r = Expense" and ch: "category r \<noteq> new_category body"
      and o: "find_active_budget (budgets d) uid (category r) = Some ob"
      and rc: "reconciled (records d) ob" and m: "spent_match ob r"
      and n: "find_active_budget_at (budgets d) uid (new_category body) (date ?r') = None"
  proof -
    have "category ?r' = new_category body" by (simp add: assign_body_def)
    with m ch have "\<not> spent_match ob ?r'" by (auto simp: spent_match_def)
    with delta[of ob] m rc have "spent_total (records ?d') ob = spentAmount ob - amount r"
      by (simp add: reconciled_def)
    then show ?thesis
      unfolding bud using e ch o n by (intro map_cong[OF refl]) auto
  qed
  have p1: "fst (updateRecord d uid rid body) = Inr ?r'" using base by (rule conjunct1)
  let ?C = "rtype r = Expense \<and> category r \<noteq> new_category body
           \<and> find_active_budget (budgets d) uid (category r) = Some ob
           \<and> reconciled (records d) ob \<and> spent_match ob r
           \<and> find_active_budget_at (budgets d) uid (new_category body) (date ?r') = None"
  have p5: "if ?C then budgets ?d' =
               map (\<lambda>b. if b = ob then ob\<lparr>spentAmount := spentAmount ob - amount r\<rparr> else b)
                 (budgets d)
            else True"
  proof (cases ?C)
    case True
    then have "budgets ?d' =
               map (\<lambda>b. if b = ob then ob\<lparr>spentAmount := spentAmount ob - amount r\<rparr> else b)
                 (budgets d)"
      using scen by blast
    then show ?thesis unfolding if_P[OF True] .
  next
    case False
    show ?thesis unfolding if_not_P[OF False] by (rule TrueI)
  qed
  show ?thesis
    by (rule conjI[OF p1 conjI[OF recs conjI[OF bud conjI[OF delta p5]]]])
qed

text \<open>Scenario E on the March records: the food expense moves to "Entertainment".\<close>

theorem updateRecord_reconciles_witness:
  "distinct (map oid (budgets march_db)) \<and> distinct (map oid (records march_db))
   \<and> find (\<lambda>x. oid x = 3 \<and> user x = 1) (records march_db) = Some food_record
   \<and> spentAmount food_budget = 500 \<and> amount food_record = 500
   \<and> fst (updateRecord march_db 1 3 to_entertainment)
        = Inr (food_record\<lparr>category := ''Entertainment''\<rparr>)
   \<and> budgets (snd (updateRecord march_db 1 3 to_entertainment))
        = [food_budget\<lparr>spentAmount := 0\<rparr>, overall_budget]"
proof -
  have h1: "distinct (map oid (budgets march_db))" by code_simp
  have h2: "distinct (map oid (records march_db))" by code_simp
  have h3: "find (\<lambda>x. oid x = 3 \<and> user x = 1) (records march_db) = Some food_record"
    by code_simp
  note t = updateRecord_reconciles [OF h1 h2 h3, of to_entertainment food_budget food_budget]
  have c: "rtype food_record = Expense \<and> category food_record \<noteq> new_category to_entertainment
           \<and> find_active_budget (budgets march_db) 1 (category food_record) = Some food_budget
           \<and> reconciled (records march_db) food_budget \<and> spent_match food_budget food_record
           \<and> find_active_budget_at (budgets march_db) 1 (new_category to_entertainment)
                (date (assign_body food_record to_entertainment)) = None"
    by code_simp
  have e1: "assign_body food_record to_entertainment = food_record\<lparr>category := ''Entertainment''\<rparr>"
    by code_simp
  have e2: "map (\<lambda>b. if b = food_budget
                     then food_budget\<lparr>spentAmount := spentAmount food_budget - amount food_record\<rparr>
                     else b) (budgets march_db)
            = [food_budget\<lparr>spentAmount := 0\<rparr>, overall_budget]"
    by code_simp
  have e3: "spentAmount food_budget = 500" "amount food_record = 500"
    by (simp_all add: food_budget_def food_record_def)
  have p1: "fst (updateRecord march_db 1 3 to_entertainment)
        = Inr (food_record\<lparr>category := ''Entertainment''\<rparr>)"
    using t unfolding e1 by (rule conjunct1)
  let ?X = "budgets (snd (updateRecord march_db 1 3 to_entertainment))
        = map (\<lambda>b. if b = food_budget
                     then food_budget\<lparr>spentAmount := spentAmount food_budget - amount food_record\<rparr>
                     else b) (budgets march_db)"
  from t have "if rtype food_record = Expense \<and> category food_record \<noteq> new_category to_entertainment
           \<and> find_active_budget (budgets march_db) 1 (category food_record) = Some food_budget
           \<and> reconciled (records march_db) food_budget \<and> spent_match food_budget food_record
           \<and> find_active_budget_at (budgets march_db) 1 (new_category to_entertainment)
                (date (assign_body food_record to_entertainment)) = None
        then ?X else True"
    by (elim conjE)
  then have ?X unfolding if_P[OF c] .
  then have p2: "budgets (snd (updateRecord march_db 1 3 to_entertainment))
        = [food_budget\<lparr>spentAmount := 0\<rparr>, overall_budget]"
    unfolding e2 .
  show ?thesis by (intro conjI h1 h2 h3 e3 p1 p2)
qed

section \<open>Listing records\<close>



end
